theory Spec2Isabelle
  imports Complex_Main "HOL-Library.Sublist"
begin

section \<open>The module \<^verbatim>\<open>demonstrations/spsa.py\<close>\<close>

text \<open>
  The file holds one triple-quoted string literal with the prefix \<^verbatim>\<open>r\<close>
  (lines 1 to 103), two blank lines and eight comment lines (lines 106 to 113).
  Read as Python, its module body is a single expression statement whose expression is
  that literal; comments and blank lines produce no statement. The development below
  embeds the literal character by character, gives the value of a string literal
  (raw and with escapes), and the execution of a module body over an explicit
  interpreter state. Execution is the one of the language reference, where the
  leading string literal of a module becomes its \<^verbatim>\<open>__doc__\<close>; the
  optimisation level that drops documentation strings and the bytecode cache of the
  import system are modelled on top of it.
\<close>

subsection \<open>String literals and their values\<close>

definition backslash :: char where
  "backslash = CHR 0x5C"

definition newline :: char where
  "newline = CHR 0x0A"

text \<open>
  A literal is kept as the token the source has: its prefix and the characters
  between the quotes. The prefix \<^verbatim>\<open>r\<close> makes the literal raw.
\<close>

datatype string_prefix = NoPrefix | RawPrefix

datatype string_literal = StringLiteral string_prefix string

text \<open>
  What a backslash followed by the character \<open>c\<close> stands for in a literal that
  is not raw: the one-character escapes of the language, a backslash and line end that
  vanish, and every unrecognised pair, which stays as it is. The numeric and named
  escapes (octal digits, \<^verbatim>\<open>x\<close>, \<^verbatim>\<open>N\<close>, \<^verbatim>\<open>u\<close>,
  \<^verbatim>\<open>U\<close>) are not part of this fragment and give \<open>None\<close>.
\<close>

definition escape_pair :: "char \<Rightarrow> string option" where
  "escape_pair c =
     (if c = newline then Some []
      else if c = backslash then Some [backslash]
      else if c = CHR 0x27 then Some [CHR 0x27]
      else if c = CHR 0x22 then Some [CHR 0x22]
      else if c = CHR ''a'' then Some [CHR 0x07]
      else if c = CHR ''b'' then Some [CHR 0x08]
      else if c = CHR ''f'' then Some [CHR 0x0C]
      else if c = CHR ''n'' then Some [CHR 0x0A]
      else if c = CHR ''r'' then Some [CHR 0x0D]
      else if c = CHR ''t'' then Some [CHR 0x09]
      else if c = CHR ''v'' then Some [CHR 0x0B]
      else if c \<in> set ''01234567xNuU'' then None
      else Some [backslash, c])"

fun unescape :: "string \<Rightarrow> string option" where
  "unescape (c # d # ds) =
     (if c = backslash
      then (case escape_pair d of
              None \<Rightarrow> None
            | Some r \<Rightarrow> (case unescape ds of None \<Rightarrow> None | Some rest \<Rightarrow> Some (r @ rest)))
      else (case unescape (d # ds) of None \<Rightarrow> None | Some rest \<Rightarrow> Some (c # rest)))"
| "unescape cs = Some cs"

fun literal_value :: "string_literal \<Rightarrow> string option" where
  "literal_value (StringLiteral RawPrefix cs) = Some cs"
| "literal_value (StringLiteral NoPrefix cs) = unescape cs"

subsection \<open>The text of the literal\<close>

text \<open>
  The characters between the opening \<^verbatim>\<open>r"""\<close> of line 1 and the closing
  \<^verbatim>\<open>"""\<close> of line 103, one entry per source line. The literal ends right
  after the line end of line 102, so every one of the 102 lines is followed by a
  newline character.
\<close>

definition docstring_lines :: "string list" where
  "docstring_lines = [
    ''.. _spsa:'',
    [],
    ''Optimization using SPSA'',
    ''======================='',
    [],
    ''PennyLane allows computing quantum gradients using  parameter-shift rules.'',
    [],
    ''For quantum circuits that have multiple free parameters, using the'',
    ''parameter-shift rule to compute quantum gradients involves computing the'',
    ''partial derivatives of the quantum function w.r.t. each free parameter. These'',
    ''partial derivatives are then used to apply the product rule when computing the'',
    ''quantum gradient (`see parameter-shift rules'',
    ''<https://pennylane.ai/qml/glossary/parameter_shift.html>`_). For qubit'',
    ''operations that are generated by one of the Pauli matrices, each partial'',
    ''derivative computation will involve two quantum circuit evaluations with a'',
    ''positive and a negative shift in the parameter values.'',
    [],
    ''As in such cases there would be two circuit evaluation for each free parameter,'',
    ''the number of overall quantum circuit executions for computing a quantum'',
    ''gradient scales linearly with the number of free parameters: :math:`O(k)` with'',
    '':math:`k` being the number of free parameters. This scaling can be very costly'',
    ''for optimization tasks where many free pramaeters are considered in the quantum'',
    ''circuit. For the overall optimization this scaling gives :math:`O(k*n)` quantum'',
    ''circuit evaluations with :math:`n` being the number of optimization steps taken.'',
    [],
    ''There are, however, certain optimization techniques that are gradient-free and'',
    ''hence offer othen approach analytically computing the gradients of quantum'',
    ''circuits.'',
    [],
    ''One of such techniques is called Simultaneous perturbation stochastic'',
    ''approximation (SPSA), an optimization method that involves approximating the'',
    ''gradient of the cost function at each iteration step. This technique involves'',
    ''only two quantum circuit executions per iteration step, regardless of the'',
    ''number of free parameters. Therefore the overall number of circuit executions'',
    ''would be :math:`O(n')` where :math:`n'` is the number of optimization steps taken when'',
    ''using SPSA. This technique was also found to be robust against noise, making it'',
    ''a great optimization method in the NISQ era.'',
    [],
    ''Let's have a look at the details of how exactly this technique works.'',
    [],
    ''Simultaneous perturbation stochastic approximation (SPSA)'',
    ''---------------------------------------------------------'',
    [],
    ''SPSA is a general method for minimizing differentiable multivariate functions'',
    ''mostly tailored towards those functions for which evaluating the gradient is'',
    ''not available.'',
    [],
    ''SPSA provides a stochastic method for approximating the gradient of a'',
    ''multivariate differentiable cost function without having to evaluate the'',
    ''gradient of the function. To approximate the gradient, the cost function is'',
    ''evaluated twice using perturbed parameter vectors: every component of the'',
    ''original parameter vector is simultaneously shifted with a randomly generated'',
    ''value. This is in contrast to finite-differences methods where for each'',
    ''evaluation only one component of the parameter vector is shifted.'',
    [],
    ''Similar to gradient-based approaches such as gradient descent, SPSA offers an'',
    ''iterative optimization algorithm. We consider a differentiable cost function'',
    '':math:`L('' @ backslash # ''theta)` where :math:`'' @ backslash # ''theta` is a :math:`p-dimensional` vector and where the'',
    ''optimization problem can be translated into  finding a :math:`'' @ backslash # ''theta*` such that'',
    '':math:`'' @ backslash # ''frac{'' @ backslash # ''partial L}{'' @ backslash # ''partial u} = 0`.  It is assumed that measurements of'',
    '':math:`L('' @ backslash # ''theta)` are available at various values of :math:`'' @ backslash # ''theta`.'',
    [],
    ''This is exactly the problem that we'd consider when optimizing quantum'',
    ''functions!'',
    [],
    ''.. figure:: ../demonstrations/spsa/spsa_opt.png'',
    ''    :align: center'',
    ''    :width: 60%'',
    [],
    ''    ..'',
    [],
    ''    A schematic of the search paths used by gradient descent with'',
    ''    parameter-shift and SPSA in a low-noise setting.'',
    ''    Image source: [#spall_overview]_.'',
    [],
    ''Just like with gradient-based methods, we'd start with a :math:`'' @ backslash # ''hat{'' @ backslash # ''theta}_{0}`'',
    ''initial parameter vector. After :math:`k` iterations, the :math:`k+1.` parameter iterates'',
    ''can be obtained as'',
    [],
    ''.. math:: '' @ backslash # ''hat{'' @ backslash # ''theta}_{k+1} = '' @ backslash # ''hat{'' @ backslash # ''theta}_{k} - a_{k}'' @ backslash # ''hat{g}_{k}('' @ backslash # ''hat{'' @ backslash # ''theta}_{k})'',
    [],
    ''where :math:`'' @ backslash # ''hat{g}_{k}` is the estimate of the gradient :math:`g(u) = '' @ backslash # ''frac{'',
    backslash # ''partial L}{'' @ backslash # ''partial '' @ backslash # ''theta}` at the iterate :math:`'' @ backslash # ''hat{'' @ backslash # ''theta}_{k}` based on'',
    ''prior measurements of the cost function and :math:`a_{k}` is a numeric'',
    ''coefficient.'',
    [],
    ''As previously mentioned, SPSA further takes into account the noisiness of the'',
    ''result obtained when measuring function :math:`L`. Therefore, let's consider the'',
    ''function :math:`y('' @ backslash # ''theta)=L('' @ backslash # ''theta) + noise`.'',
    [],
    ''Using :math:`y`, the estimated gradient at each iteration step is expressed as'',
    [],
    ''.. math:: '' @ backslash # ''hat{g}_{ki} ('' @ backslash # ''hat{'' @ backslash # ''theta}_{k}) = '' @ backslash # ''frac{y('' @ backslash # ''hat{'' @ backslash # ''theta}_{k} +c_{k}'' @ backslash # ''Delta_{k})'',
    ''    - y('' @ backslash # ''hat{'' @ backslash # ''theta}_{k} -c_{k}'' @ backslash # ''Delta_{k})}{2c_{k}'' @ backslash # ''Delta_{ki}}'',
    [],
    ''where :math:`c_{k}` is a positive number and :math:`'' @ backslash # ''Delta_{k} = ('' @ backslash # ''Delta_{k_1},'',
    backslash # ''Delta_{k_2}, ..., '' @ backslash # ''Delta_{k_p})^{T}` is the perturbation vector.  The'',
    ''stochasticity of the technique comes from the fact that for each iteration step'',
    '':math:`k` the components of the :math:`'' @ backslash # ''Delta_{k}` perturbation vector are randomly'',
    ''generated using a zero-mean distribution. In most cases, the Bernoulli'',
    ''distribution is used.'',
    []
  ]"

definition docstring_text :: string where
  "docstring_text = concat (map (\<lambda>l. l @ [newline]) docstring_lines)"

text \<open>
  What follows the literal in the file: the line ends of lines 103 to 112 and the
  text of lines 104 to 113, two blank lines and eight comment lines. The file does not
  end in a line end.
\<close>

definition trailing_lines :: "string list" where
  "trailing_lines = [
    [],
    [],
    ''##############################################################################'',
    ''# References'',
    ''# ----------'',
    ''#'',
    ''# .. [#spall_overview]'',
    ''#'',
    ''#    1. James C. Spall, '' @ CHR 0x22 # ''An Overview of the Simultaneous Perturbation Method for Efficient Optimization.'' @ CHR 0x22 # [],
    ''#    `<https://www.jhuapl.edu/SPSA/PDF-SPSA/Spall_An_Overview.PDF>`__, 1998''
  ]"

definition source_text :: string where
  "source_text =
     ''r'' @ replicate 3 (CHR 0x22) @ docstring_text @ replicate 3 (CHR 0x22) @
     concat (map (\<lambda>l. newline # l) trailing_lines)"

subsection \<open>Module bodies and their execution\<close>

datatype pyvalue = NoneValue | StrValue string

datatype pyerror = NameError string | UnsupportedEscape | OSError

text \<open>
  The interpreter state: the namespace of the module being executed, as the import
  system hands it to the module body, and everything outside the module object
  (environment variables, files, network). The outside is a type parameter here; the
  import system below works on environment variables and files.
\<close>

record 'w pystate =
  globals :: "string \<rightharpoonup> pyvalue"
  external :: 'w

text \<open>
  Expressions: a constant, a name, and a call of a function that works on the outside
  (reading an environment variable, reading or writing a file). Such a call is given
  by what it does there: it returns a value and the outside it leaves, or raises.
\<close>

datatype 'w expr = Constant string_literal | Name string | Call "'w \<Rightarrow> pyerror + pyvalue \<times> 'w"

datatype 'w stmt = Expr "'w expr" | Assign string "'w expr"

fun eval_expr :: "'w expr \<Rightarrow> 'w pystate \<Rightarrow> pyerror + pyvalue \<times> 'w pystate" where
  "eval_expr (Constant l) s =
     (case literal_value l of None \<Rightarrow> Inl UnsupportedEscape | Some v \<Rightarrow> Inr (StrValue v, s))"
| "eval_expr (Name x) s =
     (case globals s x of None \<Rightarrow> Inl (NameError x) | Some v \<Rightarrow> Inr (v, s))"
| "eval_expr (Call f) s =
     (case f (external s) of Inl err \<Rightarrow> Inl err | Inr (v, w) \<Rightarrow> Inr (v, s\<lparr>external := w\<rparr>))"

fun exec_stmt :: "'w stmt \<Rightarrow> 'w pystate \<Rightarrow> pyerror + 'w pystate" where
  "exec_stmt (Expr e) s =
     (case eval_expr e s of Inl err \<Rightarrow> Inl err | Inr (v, s') \<Rightarrow> Inr s')"
| "exec_stmt (Assign x e) s =
     (case eval_expr e s of
        Inl err \<Rightarrow> Inl err
      | Inr (v, s') \<Rightarrow> Inr (s'\<lparr>globals := (globals s')(x \<mapsto> v)\<rparr>))"

fun exec_body :: "'w stmt list \<Rightarrow> 'w pystate \<Rightarrow> pyerror + 'w pystate" where
  "exec_body [] s = Inr s"
| "exec_body (st # sts) s =
     (case exec_stmt st s of Inl err \<Rightarrow> Inl err | Inr s' \<Rightarrow> exec_body sts s')"

text \<open>
  A module whose first statement is an expression statement of a string literal has
  that literal as its documentation string.
\<close>

fun get_docstring :: "'w stmt list \<Rightarrow> string_literal option" where
  "get_docstring (Expr (Constant l) # sts) = Some l"
| "get_docstring sts = None"

text \<open>
  Executing a module: the documentation string, when there is one, is stored under
  \<^verbatim>\<open>__doc__\<close> first; then the statements run in order, and the first error ends
  the execution.
\<close>

definition exec_module :: "'w stmt list \<Rightarrow> 'w pystate \<Rightarrow> pyerror + 'w pystate" where
  "exec_module body s =
     (case get_docstring body of
        None \<Rightarrow> exec_body body s
      | Some l \<Rightarrow>
          (case literal_value l of
             None \<Rightarrow> Inl UnsupportedEscape
           | Some d \<Rightarrow> exec_body body (s\<lparr>globals := (globals s)(''__doc__'' \<mapsto> StrValue d)\<rparr>)))"

text \<open>The module body of \<^verbatim>\<open>spsa.py\<close>: the raw literal, as an expression statement.\<close>

definition spsa_module :: "'w stmt list" where
  "spsa_module = [Expr (Constant (StringLiteral RawPrefix docstring_text))]"

subsection \<open>Interpreter settings and the import system\<close>

text \<open>
  At optimisation level 2 (the option \<^verbatim>\<open>-OO\<close>, or the environment variable
  \<^verbatim>\<open>PYTHONOPTIMIZE=2\<close> read when the interpreter starts) documentation strings
  are dropped when a module is compiled: the leading literal is neither stored under
  \<^verbatim>\<open>__doc__\<close> nor evaluated. Below that level the module runs as above.
\<close>

definition exec_module_at :: "nat \<Rightarrow> 'w stmt list \<Rightarrow> 'w pystate \<Rightarrow> pyerror + 'w pystate" where
  "exec_module_at level body s =
     (if level < 2 then exec_module body s
      else (case get_docstring body of
              None \<Rightarrow> exec_body body s
            | Some l \<Rightarrow> exec_body (tl body) s))"


record world =
  environ :: "string \<rightharpoonup> string"
  files :: "string \<rightharpoonup> string"




definition fresh_checkout :: world where
  "fresh_checkout =
     \<lparr>environ = Map.empty, files = [''demonstrations/spsa.py'' \<mapsto> source_text]\<rparr>"

section \<open>The optimisation schemes the documentation describes\<close>

text \<open>
  Modelled from the spec: the repository has no code for SPSA or for the
  parameter-shift gradient; both exist only as the description in the documentation
  string embedded above (the glossary of the specification summarises it). The
  definitions of this section follow that text: line 89 for the measured cost, lines
  93 and 94 for the gradient estimate, line 80 for the update of the iterate, and
  lines 13 to 24 for the parameter-shift rule. A parameter vector is a list of reals.
  Every measurement is recorded in a log of the points measured so far, so that the
  evaluations of the cost function can be counted.
\<close>

type_synonym vec = "real list"

text \<open>
  Modelled from the spec: the measurement \<open>y(\<theta>) = L(\<theta>) + noise\<close> of line 89, no code
  given. The noise of a measurement is taken from a sequence, by the number of
  measurements made before it.
\<close>

definition measure_cost :: "(vec \<Rightarrow> real) \<Rightarrow> (nat \<Rightarrow> real) \<Rightarrow> vec \<Rightarrow> vec list \<Rightarrow> real \<times> vec list" where
  "measure_cost L noise theta pts = (L theta + noise (length pts), pts @ [theta])"

text \<open>
  Modelled from the spec: the perturbed parameter vector \<open>\<theta> + c \<Delta>\<close> of lines 93
  and 94, every component shifted at once; no code given.
\<close>

definition perturb :: "vec \<Rightarrow> real \<Rightarrow> vec \<Rightarrow> vec" where
  "perturb theta c delta = map2 (\<lambda>t d. t + c * d) theta delta"

text \<open>
  Modelled from the spec: the denominator \<open>2 c\<^sub>k \<Delta>\<^sub>k\<^sub>i\<close> and the estimate
  \<open>(y(\<theta> + c \<Delta>) - y(\<theta> - c \<Delta>)) / (2 c \<Delta>\<^sub>i)\<close> of lines 93 and 94, no code
  given. The two measurements are made once and shared by all components.
\<close>

definition estimate_denominator :: "real \<Rightarrow> real \<Rightarrow> real" where
  "estimate_denominator c d = 2 * c * d"

definition gradient_estimate ::
  "(vec \<Rightarrow> vec list \<Rightarrow> real \<times> vec list) \<Rightarrow> vec \<Rightarrow> real \<Rightarrow> vec \<Rightarrow> vec list \<Rightarrow> vec \<times> vec list" where
  "gradient_estimate y theta c delta pts =
     (let (y_plus, pts1) = y (perturb theta c delta) pts;
          (y_minus, pts2) = y (perturb theta (- c) delta) pts1
      in (map (\<lambda>d. (y_plus - y_minus) / estimate_denominator c d) delta, pts2))"

text \<open>
  Modelled from the spec: the update \<open>\<theta>\<^sub>k\<^sub>+\<^sub>1 = \<theta>\<^sub>k - a\<^sub>k g\<^sub>k(\<theta>\<^sub>k)\<close> of line 80 and
  its iteration from an initial vector, no code given. The coefficients \<open>a\<close>, \<open>c\<close>
  and the perturbation vectors \<open>delta\<close> are sequences over the iteration step; the
  random choice of the perturbations is an input.
\<close>

definition spsa_step ::
  "(vec \<Rightarrow> vec list \<Rightarrow> real \<times> vec list) \<Rightarrow> real \<Rightarrow> real \<Rightarrow> vec \<Rightarrow> vec \<Rightarrow> vec list \<Rightarrow> vec \<times> vec list" where
  "spsa_step y a c delta theta pts =
     (let (g, pts') = gradient_estimate y theta c delta pts
      in (map2 (\<lambda>t gi. t - a * gi) theta g, pts'))"

fun spsa_iterate ::
  "(vec \<Rightarrow> vec list \<Rightarrow> real \<times> vec list) \<Rightarrow> (nat \<Rightarrow> real) \<Rightarrow> (nat \<Rightarrow> real) \<Rightarrow> (nat \<Rightarrow> vec) \<Rightarrow>
     nat \<Rightarrow> vec \<Rightarrow> vec list \<Rightarrow> vec \<times> vec list" where
  "spsa_iterate y a c delta 0 theta pts = (theta, pts)"
| "spsa_iterate y a c delta (Suc k) theta pts =
     (let (theta_k, pts_k) = spsa_iterate y a c delta k theta pts
      in spsa_step y (a k) (c k) (delta k) theta_k pts_k)"

text \<open>
  Modelled from the spec: the circuit evaluations of the parameter-shift rule, lines
  13 to 24, no code given: for each free parameter one evaluation with a positive and
  one with a negative shift of that parameter. The text fixes neither the size of the
  shift nor the descent step, so the shift is a parameter and a descent is given by
  its sequence of iterates.
\<close>

definition parameter_shift_points :: "vec \<Rightarrow> real \<Rightarrow> vec list" where
  "parameter_shift_points theta s =
     concat (map (\<lambda>i. [theta[i := theta ! i + s], theta[i := theta ! i - s]]) [0..<length theta])"

definition descent_points :: "(nat \<Rightarrow> vec) \<Rightarrow> real \<Rightarrow> nat \<Rightarrow> vec list" where
  "descent_points thetas s n = concat (map (\<lambda>j. parameter_shift_points (thetas j) s) [0..<n])"

section \<open>Executing the module\<close>

lemma literal_value_raw: "literal_value (StringLiteral RawPrefix cs) = Some cs"
  by simp

lemma exec_spsa_module:
  "exec_module spsa_module s =
     Inr (s\<lparr>globals := (globals s)(''__doc__'' \<mapsto> StrValue docstring_text)\<rparr>)"
  by (simp add: exec_module_def spsa_module_def)

lemma sublist_of_line:
  assumes "l \<in> set ls" and "sublist xs l"
  shows "sublist xs (concat (map (\<lambda>l. l @ [newline]) ls))"
proof -
  from assms(1) obtain as bs where ls: "ls = as @ l # bs"
    by (auto dest: split_list)
  from assms(2) obtain ps ss where l: "l = ps @ xs @ ss"
    by (auto simp: sublist_def)
  have "concat (map (\<lambda>l. l @ [newline]) ls) =
          (concat (map (\<lambda>l. l @ [newline]) as) @ ps) @ xs @
          (ss @ [newline] @ concat (map (\<lambda>l. l @ [newline]) bs))"
    by (simp add: ls l)
  then show ?thesis
    unfolding sublist_def by blast
qed

lemma line_58_in_docstring:
  "'':math:`L('' @ backslash # ''theta)` where :math:`'' @ backslash #
     ''theta` is a :math:`p-dimensional` vector and where the'' \<in> set docstring_lines"
  by (simp add: docstring_lines_def backslash_def)

lemma math_theta_in_docstring:
  "sublist ('':math:`L('' @ backslash # ''theta)`'') docstring_text"
proof -
  have "sublist ('':math:`L('' @ backslash # ''theta)`'')
          ('':math:`L('' @ backslash # ''theta)` where :math:`'' @ backslash #
           ''theta` is a :math:`p-dimensional` vector and where the'')"
    by (intro prefix_imp_sublist) (simp add: prefix_def)
  with line_58_in_docstring show ?thesis
    unfolding docstring_text_def by (rule sublist_of_line)
qed

text \<open>
  The same characters in a literal without the prefix would lose the backslash:
  \<^verbatim>\<open>\t\<close> is the escape of the tabulator.
\<close>

lemma math_theta_not_raw:
  "literal_value (StringLiteral NoPrefix ('':math:`L('' @ backslash # ''theta)`'')) =
     Some ('':math:`L('' @ CHR 0x09 # ''heta)`'')"
  by (simp add: backslash_def escape_pair_def newline_def)

text \<open>
  C1: executing the module body changes the namespace at \<^verbatim>\<open>__doc__\<close> only,
  which it binds to the text of the opening raw literal. No other name (class,
  function or variable) is bound, and the state outside the namespace is as before.
\<close>

theorem module_binds_only_doc:
  "exec_module spsa_module s =
     Inr (s\<lparr>globals := (globals s)(''__doc__'' \<mapsto> StrValue docstring_text)\<rparr>) \<and>
   get_docstring spsa_module = Some (StringLiteral RawPrefix docstring_text) \<and>
   length spsa_module = 1"
  by (simp add: exec_spsa_module) (simp add: spsa_module_def)

text \<open>
  C5: executing the module body never ends in an error: from every state it returns
  a state.
\<close>

theorem module_never_raises:
  "(\<exists>t. exec_module spsa_module s = Inr t) \<and> (\<nexists>err. exec_module spsa_module s = Inl err)"
  by (simp add: exec_spsa_module)

text \<open>
  The outside is not out of reach of a module body: a body that makes a call changes
  it as the call does.
\<close>

lemma call_changes_external:
  "exec_module [Expr (Call (\<lambda>w. Inr (NoneValue, f w)))] s = Inr (s\<lparr>external := f (external s)\<rparr>)"
  by (simp add: exec_module_def)

lemma exec_spsa_module_at:
  "exec_module_at level spsa_module s =
     Inr (if level < 2
          then s\<lparr>globals := (globals s)(''__doc__'' \<mapsto> StrValue docstring_text)\<rparr>
          else s)"
proof (cases "level < 2")
  case True
  then show ?thesis
    by (simp add: exec_module_at_def exec_spsa_module)
next
  case False
  then show ?thesis
    by (simp add: exec_module_at_def spsa_module_def)
qed




text \<open>
  C9: the literal is raw, so its value is the text between the quotes with every
  backslash kept: after execution \<^verbatim>\<open>__doc__\<close> contains the characters
  \<^verbatim>\<open>:math:`L(\theta)`\<close>, with the backslash before \<^verbatim>\<open>theta\<close>.
\<close>

theorem doc_keeps_backslash:
  "\<exists>t d. exec_module spsa_module s = Inr t \<and>
      globals t ''__doc__'' = Some (StrValue d) \<and>
      literal_value (StringLiteral RawPrefix docstring_text) = Some d \<and>
      sublist ('':math:`L('' @ [CHR 0x5C] @ ''theta)`'') d"
  using math_theta_in_docstring by (simp add: exec_spsa_module backslash_def)

text \<open>
  C10, as stated, fails: the module state after execution is not the same for any
  two executions. Imported under two names, the two modules differ in
  \<^verbatim>\<open>__name__\<close>; and at optimisation level 2 the documentation string is dropped,
  so \<^verbatim>\<open>__doc__\<close> stays \<^verbatim>\<open>None\<close> where the default level binds the text.
\<close>

theorem module_state_not_identical:
  "map_sum id globals
     (exec_module_at 0 spsa_module
        \<lparr>globals = [''__name__'' \<mapsto> StrValue ''spsa'', ''__doc__'' \<mapsto> NoneValue],
         external = fresh_checkout\<rparr>) \<noteq>
   map_sum id globals
     (exec_module_at 0 spsa_module
        \<lparr>globals = [''__name__'' \<mapsto> StrValue ''demonstrations.spsa'', ''__doc__'' \<mapsto> NoneValue],
         external = fresh_checkout\<rparr>) \<and>
   map_sum id (\<lambda>t. globals t ''__doc__'')
     (exec_module_at 0 spsa_module
        \<lparr>globals = [''__name__'' \<mapsto> StrValue ''spsa'', ''__doc__'' \<mapsto> NoneValue],
         external = fresh_checkout\<rparr>) = Inr (Some (StrValue docstring_text)) \<and>
   map_sum id (\<lambda>t. globals t ''__doc__'')
     (exec_module_at 2 spsa_module
        \<lparr>globals = [''__name__'' \<mapsto> StrValue ''spsa'', ''__doc__'' \<mapsto> NoneValue],
         external = fresh_checkout\<rparr>) = Inr (Some NoneValue)"
proof -
  have "([''__name__'' \<mapsto> StrValue ''spsa'', ''__doc__'' \<mapsto> NoneValue]
          (''__doc__'' \<mapsto> StrValue docstring_text)) ''__name__'' \<noteq>
        ([''__name__'' \<mapsto> StrValue ''demonstrations.spsa'', ''__doc__'' \<mapsto> NoneValue]
          (''__doc__'' \<mapsto> StrValue docstring_text)) ''__name__''"
    by simp
  then have "[''__name__'' \<mapsto> StrValue ''spsa'', ''__doc__'' \<mapsto> NoneValue]
          (''__doc__'' \<mapsto> StrValue docstring_text) \<noteq>
        [''__name__'' \<mapsto> StrValue ''demonstrations.spsa'', ''__doc__'' \<mapsto> NoneValue]
          (''__doc__'' \<mapsto> StrValue docstring_text)"
    by metis
  then show ?thesis
    by (simp add: exec_spsa_module_at)
qed

text \<open>
  C10, amended: any two executions of the module at optimisation levels that keep
  documentation strings (below 2), from any two start states, succeed, leave what is
  outside the namespace as it was, and bind \<^verbatim>\<open>__doc__\<close> to the same string,
  character by character. Every other name keeps the value the import system gave it,
  so the two module states are equal exactly when the two start namespaces agree on
  all names other than \<^verbatim>\<open>__doc__\<close>.
\<close>

theorem module_doc_input_independent:
  assumes "l1 < 2" and "l2 < 2"
  shows "\<exists>t1 t2. exec_module_at l1 spsa_module s1 = Inr t1 \<and>
      exec_module_at l2 spsa_module s2 = Inr t2 \<and>
      globals t1 = (globals s1)(''__doc__'' \<mapsto> StrValue docstring_text) \<and>
      globals t2 = (globals s2)(''__doc__'' \<mapsto> StrValue docstring_text) \<and>
      globals t1 ''__doc__'' = globals t2 ''__doc__'' \<and>
      external t1 = external s1 \<and> external t2 = external s2 \<and>
      (globals t1 = globals t2) =
        ((globals s1)(''__doc__'' := None) = (globals s2)(''__doc__'' := None))"
proof -
  have "((globals s1)(''__doc__'' \<mapsto> StrValue docstring_text) =
         (globals s2)(''__doc__'' \<mapsto> StrValue docstring_text)) =
        ((globals s1)(''__doc__'' := None) = (globals s2)(''__doc__'' := None))"
    by (auto simp: fun_eq_iff split: if_splits)
  with assms show ?thesis
    by (simp add: exec_spsa_module_at)
qed

theorem module_doc_input_independent_witness:
  "(0::nat) < 2 \<and> (1::nat) < 2 \<and>
   (\<exists>t1 t2.
      exec_module_at 0 spsa_module
        \<lparr>globals = [''__name__'' \<mapsto> StrValue ''spsa''], external = fresh_checkout\<rparr> = Inr t1 \<and>
      exec_module_at 1 spsa_module
        \<lparr>globals = [''__name__'' \<mapsto> StrValue ''spsa''],
         external = fresh_checkout\<lparr>environ := [''HOME'' \<mapsto> ''/root'']\<rparr>\<rparr> = Inr t2 \<and>
      globals t1 ''__doc__'' = Some (StrValue docstring_text) \<and>
      globals t1 = globals t2 \<and>
      external t1 = fresh_checkout)"
proof -
  have a: "(0::nat) < 2" and b: "(1::nat) < 2"
    by simp_all
  from module_doc_input_independent [OF a b,
      of "\<lparr>globals = [''__name__'' \<mapsto> StrValue ''spsa''], external = fresh_checkout\<rparr>"
         "\<lparr>globals = [''__name__'' \<mapsto> StrValue ''spsa''],
           external = fresh_checkout\<lparr>environ := [''HOME'' \<mapsto> ''/root'']\<rparr>\<rparr>"]
  show ?thesis
    by auto
qed

section \<open>Evaluation counts of the described schemes\<close>

lemma gradient_estimate_measured:
  "gradient_estimate (measure_cost L noise) theta c delta pts =
     (map (\<lambda>d. ((L (perturb theta c delta) + noise (length pts)) -
                 (L (perturb theta (- c) delta) + noise (Suc (length pts)))) /
                estimate_denominator c d) delta,
      pts @ [perturb theta c delta, perturb theta (- c) delta])"
  by (simp add: gradient_estimate_def measure_cost_def)

lemma spsa_step_points:
  "snd (spsa_step (measure_cost L noise) a c delta theta pts) =
     pts @ [perturb theta c delta, perturb theta (- c) delta]"
  by (simp add: spsa_step_def gradient_estimate_measured)

lemma spsa_iterate_count:
  "length (snd (spsa_iterate (measure_cost L noise) a c delta n theta pts)) = length pts + 2 * n"
proof (induction n)
  case 0
  show ?case by simp
next
  case (Suc n)
  obtain th ps where it: "spsa_iterate (measure_cost L noise) a c delta n theta pts = (th, ps)"
    by (cases "spsa_iterate (measure_cost L noise) a c delta n theta pts")
  with Suc have "length ps = length pts + 2 * n"
    by simp
  moreover have "snd (spsa_step (measure_cost L noise) (a n) (c n) (delta n) th ps) =
      ps @ [perturb th (c n) (delta n), perturb th (- c n) (delta n)]"
    by (rule spsa_step_points)
  ultimately show ?case
    by (simp add: it)
qed

lemma length_parameter_shift_points:
  "length (parameter_shift_points theta s) = 2 * length theta"
  by (simp add: parameter_shift_points_def length_concat comp_def sum_list_triv)

lemma length_descent_points:
  "(\<forall>j<n. length (thetas j) = k) \<Longrightarrow> length (descent_points thetas s n) = 2 * k * n"
proof (induction n)
  case 0
  show ?case by (simp add: descent_points_def)
next
  case (Suc n)
  then show ?case
    by (simp add: descent_points_def length_parameter_shift_points algebra_simps)
qed

text \<open>
  C2: whatever the dimension of the parameter vector, one gradient estimate measures
  the cost function at exactly two points, \<open>\<theta> + c \<Delta>\<close> and \<open>\<theta> - c \<Delta>\<close>, and all its
  components are computed from these two measurements; a run of \<open>n\<close> steps makes
  \<open>2 n\<close> measurements, which is linear in \<open>n\<close> and does not depend on the dimension.
\<close>

theorem spsa_two_evaluations_per_step:
  "gradient_estimate (measure_cost L noise) theta c delta pts =
     (map (\<lambda>d. ((L (perturb theta c delta) + noise (length pts)) -
                 (L (perturb theta (- c) delta) + noise (Suc (length pts)))) /
                estimate_denominator c d) delta,
      pts @ [perturb theta c delta, perturb theta (- c) delta]) \<and>
   length (snd (spsa_iterate (measure_cost L noise) a cs deltas n theta [])) = 2 * n"
  by (simp add: gradient_estimate_measured spsa_iterate_count)

text \<open>
  C3: when \<open>c\<close> is positive and every component of the perturbation vector is
  \<open>-1\<close> or \<open>1\<close>, the denominator \<open>2 c \<Delta>\<^sub>i\<close> of every component of the gradient
  estimate is not zero, so the quotient is the one of the reals: multiplied by its
  denominator it gives back the difference of the two measurements.
\<close>

theorem estimate_well_defined:
  assumes "0 < c" and "set delta \<subseteq> {- 1, 1}" and "i < length delta"
  shows "estimate_denominator c (delta ! i) \<noteq> 0 \<and>
         fst (gradient_estimate (measure_cost L noise) theta c delta pts) ! i *
           estimate_denominator c (delta ! i) =
         (L (perturb theta c delta) + noise (length pts)) -
         (L (perturb theta (- c) delta) + noise (Suc (length pts)))"
proof -
  from assms(2,3) have "delta ! i = - 1 \<or> delta ! i = 1"
    using nth_mem by blast
  with assms(1) have nz: "estimate_denominator c (delta ! i) \<noteq> 0"
    by (auto simp: estimate_denominator_def)
  with assms(3) show ?thesis
    by (simp add: gradient_estimate_measured)
qed

theorem estimate_well_defined_witness:
  "(0::real) < 1 / 2 \<and> set [1, - 1] \<subseteq> {- 1, 1 :: real} \<and> (1::nat) < length [1, - 1 :: real] \<and>
   estimate_denominator (1 / 2) ([1, - 1] ! 1) \<noteq> 0 \<and>
   fst (gradient_estimate (measure_cost (\<lambda>v. sum_list (map (\<lambda>x. x * x) v)) (\<lambda>n. 0))
          [1, 2] (1 / 2) [1, - 1] []) ! 1 * estimate_denominator (1 / 2) ([1, - 1] ! 1) = - 2"
proof -
  have c: "(0::real) < 1 / 2"
    by simp
  have d: "set [1, - 1] \<subseteq> {- 1, 1 :: real}"
    by simp
  have i: "(1::nat) < length [1, - 1 :: real]"
    by simp
  from estimate_well_defined [OF c d i,
      of "\<lambda>v. sum_list (map (\<lambda>x. x * x) v)" "\<lambda>n. 0" "[1, 2]" "[]"]
  show ?thesis
    by (simp add: perturb_def)
qed

text \<open>
  C4: the parameter-shift rule evaluates the circuit twice for each of the \<open>k\<close> free
  parameters, \<open>2 k\<close> evaluations for one gradient; a descent of \<open>n\<close> steps over
  vectors of \<open>k\<close> parameters makes \<open>2 k n\<close> evaluations, which is linear in \<open>k n\<close>.
\<close>

theorem parameter_shift_evaluations:
  "length (parameter_shift_points theta s) = 2 * length theta \<and>
   ((\<forall>j<n. length (thetas j) = k) \<longrightarrow> length (descent_points thetas s n) = 2 * k * n)"
  by (simp add: length_parameter_shift_points length_descent_points)

theorem parameter_shift_evaluations_witness:
  "length ((\<lambda>j. [0, 0, 0 :: real]) 0) = 3 \<and> length ((\<lambda>j. [0, 0, 0 :: real]) 1) = 3 \<and>
   length (descent_points (\<lambda>j. [0, 0, 0]) (1 / 2) 2) = 12 \<and>
   length (parameter_shift_points [0, 0, 0] (1 / 2)) = 6"
  using parameter_shift_evaluations [of "[0, 0, 0]" "1 / 2" 2 "\<lambda>j. [0, 0, 0]" 3]
  by simp

text \<open>
  C8: with more than one free parameter, one step of SPSA measures fewer often than
  one parameter-shift gradient evaluates the circuit (2 against \<open>2 k\<close>), also over any
  positive number of steps, and the difference \<open>2 k - 2\<close> grows strictly with \<open>k\<close>.
\<close>

theorem spsa_cheaper_than_parameter_shift:
  "(1 < length theta \<longrightarrow>
      length (snd (gradient_estimate (measure_cost L noise) theta c delta [])) <
      length (parameter_shift_points theta s)) \<and>
   (1 < k \<and> 0 < n \<and> (\<forall>j<n. length (thetas j) = k) \<longrightarrow>
      length (snd (spsa_iterate (measure_cost L noise) a cs deltas n theta0 [])) <
      length (descent_points thetas s n)) \<and>
   (length theta < length theta' \<longrightarrow>
      int (length (parameter_shift_points theta s)) -
      int (length (snd (gradient_estimate (measure_cost L noise) theta c delta []))) <
      int (length (parameter_shift_points theta' s)) -
      int (length (snd (gradient_estimate (measure_cost L noise) theta' c delta' []))))"
proof (intro conjI impI)
  assume "1 < length theta"
  then show "length (snd (gradient_estimate (measure_cost L noise) theta c delta [])) <
      length (parameter_shift_points theta s)"
    by (simp add: gradient_estimate_measured length_parameter_shift_points)
next
  assume h: "1 < k \<and> 0 < n \<and> (\<forall>j<n. length (thetas j) = k)"
  then have "n < k * n"
    by simp
  then have "2 * n < 2 * k * n"
    by simp
  moreover from h have "length (descent_points thetas s n) = 2 * k * n"
    by (intro length_descent_points) simp
  ultimately show "length (snd (spsa_iterate (measure_cost L noise) a cs deltas n theta0 [])) <
      length (descent_points thetas s n)"
    by (simp add: spsa_iterate_count)
next
  assume "length theta < length theta'"
  then show "int (length (parameter_shift_points theta s)) -
      int (length (snd (gradient_estimate (measure_cost L noise) theta c delta []))) <
      int (length (parameter_shift_points theta' s)) -
      int (length (snd (gradient_estimate (measure_cost L noise) theta' c delta' [])))"
    by (simp add: gradient_estimate_measured length_parameter_shift_points)
qed

theorem spsa_cheaper_than_parameter_shift_witness:
  "1 < length [0, 0 :: real] \<and> (0::nat) < 1 \<and> length ((\<lambda>j. [0, 0 :: real]) 0) = 2 \<and>
   length [0, 0 :: real] < length [0, 0, 0 :: real] \<and>
   length (snd (gradient_estimate (measure_cost sum_list (\<lambda>n. 0)) [0, 0] (1 / 2) [1, - 1] [])) <
     length (parameter_shift_points [0, 0] (1 / 2)) \<and>
   length (snd (spsa_iterate (measure_cost sum_list (\<lambda>n. 0)) (\<lambda>k. 1) (\<lambda>k. 1 / 2) (\<lambda>k. [1, - 1]) 1 [0, 0] [])) <
     length (descent_points (\<lambda>j. [0, 0]) (1 / 2) 1) \<and>
   int (length (parameter_shift_points [0, 0] (1 / 2))) -
     int (length (snd (gradient_estimate (measure_cost sum_list (\<lambda>n. 0)) [0, 0] (1 / 2) [1, - 1] []))) <
   int (length (parameter_shift_points [0, 0, 0] (1 / 2))) -
     int (length (snd (gradient_estimate (measure_cost sum_list (\<lambda>n. 0)) [0, 0, 0] (1 / 2) [1, - 1, 1] [])))"
  using spsa_cheaper_than_parameter_shift
    [of "[0, 0]" sum_list "\<lambda>n. 0" "1 / 2" "[1, - 1]" "1 / 2" 2 1 "\<lambda>j. [0, 0]"
        "\<lambda>k. 1" "\<lambda>k. 1 / 2" "\<lambda>k. [1, - 1]" "[0, 0]" "[0, 0, 0]" "[1, - 1, 1]"]
  by simp

end
